theory Spec2Isabelle
  imports Main "HOL-Library.Sublist" "HOL-Library.Word"
begin

section \<open>The API token service of src/lib/services/api-token-service.ts\<close>

text \<open>
  The class \<open>ApiTokenService\<close> keeps an in-memory list of the active tokens, validates and
  creates tokens through a store it is given, and answers lookups from the list. The
  embedding is sequential: every method is a function from the service's state to a
  result and the state after it; a method that can throw returns \<open>error + 'a\<close> with
  \<open>Inl\<close> for the thrown value. An \<open>await\<close> is a plain call, with one exception:
  \<open>fetchActiveTokens\<close> is also given as its two halves, the part up to its \<open>await\<close>
  and the part after it, so that another method can run in between.
\<close>

subsection \<open>Values\<close>

text \<open>
  A property that the TypeScript types call \<open>string\<close> can be \<open>undefined\<close> at run time
  (\<open>tokenParts[1]\<close> of a descriptor with no colon is): such a property is a
  \<open>string option\<close>, \<open>None\<close> for \<open>undefined\<close>. A template literal renders it as the
  text \<open>undefined\<close>.
\<close>

fun js_to_string :: "string option \<Rightarrow> string" where
  "js_to_string None = ''undefined''"
| "js_to_string (Some s) = s"

text \<open>
  Modelled from the spec: the enum ApiTokenType of types/models/api-token is not among
  the sources; the spec gives it the members ADMIN and CLIENT. The validator destructures
  an untyped parameter, so a value outside the enum or no value at all can reach it:
  these are the last two constructors.
\<close>

datatype ApiTokenType =
    ApiTokenType_ADMIN
  | ApiTokenType_CLIENT
  | ApiTokenType_unknown string
  | ApiTokenType_missing

text \<open>
  Modelled from the spec: the constants ADMIN and CLIENT of types/permissions are not
  among the sources; they are the two permissions a Principal can hold.
\<close>

datatype permission = ADMIN | CLIENT

text \<open>
  Modelled from the spec: the constant ALL of types/models/api-token is not among the
  sources; the spec calls it the sentinel ALL, the wildcard scope, a value of the type of
  a project or environment identifier. The theorems below never unfold it, so they hold
  for any string; only the evaluations at concrete inputs do.
\<close>

definition ALL_scope :: string where
  "ALL_scope = ''*''"

text \<open>
  Modelled from the spec: the constant FOREIGN_KEY_VIOLATION of error/db-error is not
  among the sources; it is the code by which the store reports a foreign-key violation.
  The theorems below never unfold it; only the evaluations at concrete inputs do.
\<close>

definition FOREIGN_KEY_VIOLATION :: string where
  "FOREIGN_KEY_VIOLATION = ''23503''"

text \<open>
  Modelled from the spec: the class ApiUser of types/api-user is not among the sources;
  the spec's Principal holds the permission set, username, project, environment and type
  that \<open>getUserForToken\<close> passes to its constructor.
\<close>

record ApiUser =
  username :: string
  permissions :: "permission list"
  project :: "string option"
  environment :: "string option"
  type :: ApiTokenType

text \<open>
  Modelled from the spec: the interfaces IApiToken and IApiTokenCreate of
  types/models/api-token are not among the sources; the fields are those of the spec's
  token record, which are also the properties the service reads and writes.
  \<open>IApiTokenCreate\<close> and \<open>Omit<IApiTokenCreate, 'secret'>\<close> are views of the same
  object with fewer properties: \<open>createApiToken\<close> overwrites \<open>secret\<close> by
  \<open>{ ...newToken, secret }\<close>, and \<open>createdAt\<close> is \<open>undefined\<close> until the store sets it.
  Dates are milliseconds.
\<close>

record IApiToken =
  secret :: string
  username :: string
  type :: ApiTokenType
  project :: "string option"
  environment :: "string option"
  expiresAt :: "int option"
  createdAt :: "int option"

type_synonym IApiTokenCreate = IApiToken

text \<open>
  Modelled from the spec: the class BadDataError of error/bad-data-error is not among the
  sources; it is the spec's validation error, which carries a message. A method throws a
  \<open>BadDataError\<close>, or an error object of the store with the properties the service
  reads: \<open>code\<close>, \<open>constraint\<close> and \<open>message\<close>. A \<open>BadDataError\<close> has no \<open>code\<close>
  and no \<open>constraint\<close>.
\<close>

datatype error =
    BadDataError (message: string)
  | DbError (code: "string option") (constraint: "string option") (message: string)
where
  "code (BadDataError m) = None"
| "constraint (BadDataError m) = None"

subsection \<open>The store and the service's state\<close>

text \<open>
  Modelled from the spec: the interface IApiTokenStore of types/stores/api-token-store is
  not among the sources; the spec lists its six operations. The store is a collaborator
  the constructor receives, and its implementation is not part of the service. It is a
  parameter: a state \<open>'s\<close> and the six operations, each of which can fail; the three
  reads do not change the state. The theorems hold for every store.
  (\<open>insert\<close> and \<open>delete\<close> carry a suffix: \<open>insert\<close> is a constant of HOL and the
  service has a \<open>delete\<close> of its own.)
\<close>

record 's IApiTokenStore =
  getAll :: "'s \<Rightarrow> error + IApiToken list"
  getAllActive :: "'s \<Rightarrow> error + IApiToken list"
  count :: "'s \<Rightarrow> error + int"
  insert_store :: "IApiTokenCreate \<Rightarrow> 's \<Rightarrow> (error + IApiToken) \<times> 's"
  setExpiry :: "string \<Rightarrow> int \<Rightarrow> 's \<Rightarrow> (error + IApiToken) \<times> 's"
  delete_store :: "string \<Rightarrow> 's \<Rightarrow> (error + unit) \<times> 's"

text \<open>
  The fields of the class: the store (here its state), the logger (here the lines written
  with \<open>logger.error\<close>) and the cache \<open>activeTokens\<close>. The timer is left out: no method
  below reads it.
\<close>

record 's ApiTokenService =
  store :: 's
  logger :: "string list"
  activeTokens :: "IApiToken list"

subsection \<open>The methods\<close>

definition getAllTokens ::
  "'s IApiTokenStore \<Rightarrow> 's ApiTokenService \<Rightarrow> error + IApiToken list" where
  "getAllTokens st svc = getAll st (store svc)"

definition getAllActiveTokens ::
  "'s IApiTokenStore \<Rightarrow> 's ApiTokenService \<Rightarrow> error + IApiToken list" where
  "getAllActiveTokens st svc = getAllActive st (store svc)"

text \<open>
  \<open>fetchActiveTokens\<close>: the \<open>return\<close> in the \<open>finally\<close> block discards whatever the
  \<open>try\<close> block threw.
\<close>

definition fetchActiveTokens ::
  "'s IApiTokenStore \<Rightarrow> 's ApiTokenService \<Rightarrow> (error + unit) \<times> 's ApiTokenService" where
  "fetchActiveTokens st svc =
     (case getAllActiveTokens st svc of
        Inr tokens \<Rightarrow> (Inr (), svc\<lparr>activeTokens := tokens\<rparr>)
      | Inl e \<Rightarrow> (Inr (), svc))"

text \<open>
  The two halves of \<open>fetchActiveTokens\<close>. Up to the \<open>await\<close> it calls
  \<open>getAllActiveTokens\<close>; what that call answers is held until the method resumes. The
  part after the \<open>await\<close> assigns the answer to the cache, or does nothing when the
  answer is a thrown value. Other methods can run between the two.
\<close>

definition fetchActiveTokens_resume ::
  "error + IApiToken list \<Rightarrow> 's ApiTokenService \<Rightarrow> (error + unit) \<times> 's ApiTokenService" where
  "fetchActiveTokens_resume awaited svc =
     (case awaited of
        Inr tokens \<Rightarrow> (Inr (), svc\<lparr>activeTokens := tokens\<rparr>)
      | Inl e \<Rightarrow> (Inr (), svc))"


definition getUserForToken :: "'s ApiTokenService \<Rightarrow> string \<Rightarrow> ApiUser option" where
  "getUserForToken svc secret' =
     (case find (\<lambda>t. secret t = secret') (activeTokens svc) of
        Some token \<Rightarrow>
          Some \<lparr>ApiUser.username = IApiToken.username token,
                ApiUser.permissions =
                  (if IApiToken.type token = ApiTokenType_ADMIN then [ADMIN] else [CLIENT]),
                ApiUser.project = IApiToken.project token,
                ApiUser.environment = IApiToken.environment token,
                ApiUser.type = IApiToken.type token\<rparr>
      | None \<Rightarrow> None)"

definition updateExpiry ::
  "'s IApiTokenStore \<Rightarrow> string \<Rightarrow> int \<Rightarrow> 's ApiTokenService
     \<Rightarrow> (error + IApiToken) \<times> 's ApiTokenService" where
  "updateExpiry st secret' expiresAt' svc =
     (case setExpiry st secret' expiresAt' (store svc) of
        (r, s') \<Rightarrow> (r, svc\<lparr>store := s'\<rparr>))"

definition delete ::
  "'s IApiTokenStore \<Rightarrow> string \<Rightarrow> 's ApiTokenService
     \<Rightarrow> (error + unit) \<times> 's ApiTokenService" where
  "delete st secret' svc =
     (case delete_store st secret' (store svc) of
        (r, s') \<Rightarrow> (r, svc\<lparr>store := s'\<rparr>))"

text \<open>\<open>validateNewApiToken({ type, project, environment })\<close>: three checks in order.\<close>

definition validateNewApiToken ::
  "ApiTokenType \<Rightarrow> string option \<Rightarrow> string option \<Rightarrow> error + unit" where
  "validateNewApiToken type' project' environment' =
     (if type' = ApiTokenType_ADMIN \<and> project' \<noteq> Some ALL_scope then
        Inl (BadDataError ''Admin token cannot be scoped to single project'')
      else if type' = ApiTokenType_ADMIN \<and> environment' \<noteq> Some ALL_scope then
        Inl (BadDataError ''Admin token cannot be scoped to single environment'')
      else if type' = ApiTokenType_CLIENT \<and> environment' = Some ALL_scope then
        Inl (BadDataError ''Client token cannot be scoped to all environments'')
      else Inr ())"

text \<open>
  \<open>insertNewApiToken\<close>: the token the store returns is pushed onto the cache; a thrown
  value with the foreign-key code becomes a \<open>BadDataError\<close>, any other is thrown again.
\<close>

definition insertNewApiToken ::
  "'s IApiTokenStore \<Rightarrow> IApiTokenCreate \<Rightarrow> 's ApiTokenService
     \<Rightarrow> (error + IApiToken) \<times> 's ApiTokenService" where
  "insertNewApiToken st newApiToken svc =
     (case insert_store st newApiToken (store svc) of
        (Inr token, s') \<Rightarrow>
          (Inr token, svc\<lparr>store := s', activeTokens := activeTokens svc @ [token]\<rparr>)
      | (Inl error, s') \<Rightarrow>
          (if code error = Some FOREIGN_KEY_VIOLATION then
             (Inl (BadDataError
                (if constraint error = Some ''api_tokens_project_fkey'' then
                   ''Project='' @ js_to_string (IApiToken.project newApiToken)
                     @ '' does not exist''
                 else if constraint error = Some ''api_tokens_environment_fkey'' then
                   ''Environment='' @ js_to_string (IApiToken.environment newApiToken)
                     @ '' does not exist''
                 else message error)),
              svc\<lparr>store := s'\<rparr>)
           else (Inl error, svc\<lparr>store := s'\<rparr>)))"

text \<open>
  \<open>crypto.randomBytes(n)\<close>: the random source is a parameter, the bytes this call draws
  from it; \<open>toString('hex')\<close> writes each byte as two lower-case hexadecimal digits.
\<close>

definition randomBytes :: "(nat \<Rightarrow> 8 word) \<Rightarrow> nat \<Rightarrow> 8 word list" where
  "randomBytes crypto n = map crypto [0..<n]"

definition hex_digit :: "nat \<Rightarrow> char" where
  "hex_digit d = ''0123456789abcdef'' ! d"

definition toString_hex :: "8 word list \<Rightarrow> string" where
  "toString_hex bytes =
     concat (map (\<lambda>b. [hex_digit (unat b div 16), hex_digit (unat b mod 16)]) bytes)"

definition generateSecretKey ::
  "(nat \<Rightarrow> 8 word) \<Rightarrow> string option \<Rightarrow> string option \<Rightarrow> string" where
  "generateSecretKey crypto project' environment' =
     (let randomStr = toString_hex (randomBytes crypto 28)
      in js_to_string project' @ '':'' @ js_to_string environment' @ ''.'' @ randomStr)"

definition createApiToken ::
  "'s IApiTokenStore \<Rightarrow> (nat \<Rightarrow> 8 word) \<Rightarrow> IApiTokenCreate \<Rightarrow> 's ApiTokenService
     \<Rightarrow> (error + IApiToken) \<times> 's ApiTokenService" where
  "createApiToken st crypto newToken svc =
     (case validateNewApiToken (IApiToken.type newToken) (IApiToken.project newToken)
             (IApiToken.environment newToken) of
        Inl e \<Rightarrow> (Inl e, svc)
      | Inr _ \<Rightarrow>
          (let secret' = generateSecretKey crypto (IApiToken.project newToken)
                 (IApiToken.environment newToken);
               createNewToken = newToken\<lparr>secret := secret'\<rparr>
           in insertNewApiToken st createNewToken svc))"

text \<open>
  \<open>String.prototype.split\<close> with a one-character separator: the empty string gives one
  empty part. \<open>parts[i]\<close> beyond the end is \<open>undefined\<close>.
\<close>

fun js_split :: "string \<Rightarrow> char \<Rightarrow> string list" where
  "js_split [] sep = [[]]"
| "js_split (c # cs) sep =
     (if c = sep then [] # js_split cs sep
      else (case js_split cs sep of
              [] \<Rightarrow> [[c]]
            | p # ps \<Rightarrow> (c # p) # ps))"

definition js_index :: "'a list \<Rightarrow> nat \<Rightarrow> 'a option" where
  "js_index xs i = (if i < length xs then Some (xs ! i) else None)"

text \<open>The record that the loop of \<open>initApiTokens\<close> builds from one descriptor.\<close>

definition initApiTokens_newToken :: "string \<Rightarrow> IApiToken" where
  "initApiTokens_newToken token =
     (let tokenParts = js_split token CHR '':''
      in \<lparr>secret = js_to_string (js_index tokenParts 0) @ '':''
                    @ js_to_string (js_index tokenParts 1) @ ''.''
                    @ js_to_string (js_index tokenParts 2),
          username = ''admin'',
          type = ApiTokenType_ADMIN,
          project = js_index tokenParts 0,
          environment = js_index tokenParts 1,
          expiresAt = None,
          createdAt = None\<rparr>)"

text \<open>
  The \<open>for\<close> loop inside the \<open>try\<close>: the first descriptor whose validation or insert
  throws ends the loop with the thrown value.
\<close>

fun initApiTokens_loop ::
  "'s IApiTokenStore \<Rightarrow> string list \<Rightarrow> 's ApiTokenService
     \<Rightarrow> (error + unit) \<times> 's ApiTokenService" where
  "initApiTokens_loop st [] svc = (Inr (), svc)"
| "initApiTokens_loop st (token # tokens) svc =
     (let newToken = initApiTokens_newToken token
      in case validateNewApiToken (IApiToken.type newToken) (IApiToken.project newToken)
                (IApiToken.environment newToken) of
           Inl e \<Rightarrow> (Inl e, svc)
         | Inr _ \<Rightarrow>
             (case insertNewApiToken st newToken svc of
                (Inl e, svc') \<Rightarrow> (Inl e, svc')
              | (Inr _, svc') \<Rightarrow> initApiTokens_loop st tokens svc'))"

text \<open>
  \<open>initApiTokens\<close>: \<open>store.count()\<close> is awaited outside the \<open>try\<close>, so its failure is
  thrown; a count that is not zero returns at once; the \<open>catch\<close> logs one line.
\<close>

definition initApiTokens ::
  "'s IApiTokenStore \<Rightarrow> string list \<Rightarrow> 's ApiTokenService
     \<Rightarrow> (error + unit) \<times> 's ApiTokenService" where
  "initApiTokens st tokens svc =
     (case count st (store svc) of
        Inl e \<Rightarrow> (Inl e, svc)
      | Inr tokenCount \<Rightarrow>
          (if tokenCount \<noteq> 0 then (Inr (), svc)
           else (case initApiTokens_loop st tokens svc of
                   (Inl e, svc') \<Rightarrow>
                     (Inr (), svc'\<lparr>logger := logger svc'
                        @ [''Unable to create initial Admin API tokens'']\<rparr>)
                 | (Inr _, svc') \<Rightarrow> (Inr (), svc'))))"


subsection \<open>Observing the store's inserts\<close>

text \<open>
  To say which records the service hands to \<open>store.insert\<close>, any store is wrapped into
  one that also keeps the list of the records it was asked to insert; it answers as the
  store it wraps.
\<close>

definition recording :: "'s IApiTokenStore \<Rightarrow> ('s \<times> IApiTokenCreate list) IApiTokenStore" where
  "recording st =
     \<lparr>getAll = (\<lambda>(s, asked). getAll st s),
      getAllActive = (\<lambda>(s, asked). getAllActive st s),
      count = (\<lambda>(s, asked). count st s),
      insert_store = (\<lambda>t (s, asked).
        (case insert_store st t s of (r, s') \<Rightarrow> (r, (s', asked @ [t])))),
      setExpiry = (\<lambda>secret' expiresAt' (s, asked).
        (case setExpiry st secret' expiresAt' s of (r, s') \<Rightarrow> (r, (s', asked)))),
      delete_store = (\<lambda>secret' (s, asked).
        (case delete_store st secret' s of (r, s') \<Rightarrow> (r, (s', asked))))\<rparr>"

subsection \<open>A store to run the service on\<close>

text \<open>
  The theorems are about every store. To run the service on concrete inputs, here is one
  store: a table of rows, the projects and environments a row may refer to, a clock, and
  a switch that makes every operation fail as a lost connection does. Its insert refuses
  an unknown project or environment with a foreign-key violation and a secret that is
  already in the table with a unique violation; it stamps \<open>createdAt\<close>.
\<close>

record table =
  rows :: "IApiToken list"
  projects :: "string list"
  environments :: "string list"
  now :: int
  offline :: bool

definition connection_lost :: error where
  "connection_lost = DbError (Some ''ECONNREFUSED'') None ''connect ECONNREFUSED''"

definition table_insert :: "IApiTokenCreate \<Rightarrow> table \<Rightarrow> (error + IApiToken) \<times> table" where
  "table_insert t db =
     (if offline db then (Inl connection_lost, db)
      else if IApiToken.project t \<notin> set (map Some (projects db)) then
        (Inl (DbError (Some FOREIGN_KEY_VIOLATION) (Some ''api_tokens_project_fkey'')
           ''violates foreign key constraint api_tokens_project_fkey''), db)
      else if IApiToken.environment t \<notin> set (map Some (environments db)) then
        (Inl (DbError (Some FOREIGN_KEY_VIOLATION) (Some ''api_tokens_environment_fkey'')
           ''violates foreign key constraint api_tokens_environment_fkey''), db)
      else if secret t \<in> set (map secret (rows db)) then
        (Inl (DbError (Some ''23505'') (Some ''api_tokens_pkey'')
           ''duplicate key value violates unique constraint api_tokens_pkey''), db)
      else (let row = t\<lparr>createdAt := Some (now db)\<rparr>
            in (Inr row, db\<lparr>rows := rows db @ [row]\<rparr>)))"

definition table_store :: "table IApiTokenStore" where
  "table_store =
     \<lparr>getAll = (\<lambda>db. if offline db then Inl connection_lost else Inr (rows db)),
      getAllActive = (\<lambda>db. if offline db then Inl connection_lost
         else Inr (filter (\<lambda>t. case expiresAt t of None \<Rightarrow> True | Some d \<Rightarrow> now db < d)
                     (rows db))),
      count = (\<lambda>db. if offline db then Inl connection_lost else Inr (int (length (rows db)))),
      insert_store = table_insert,
      setExpiry = (\<lambda>secret' expiresAt' db.
         if offline db then (Inl connection_lost, db)
         else (case find (\<lambda>t. secret t = secret') (rows db) of
                 None \<Rightarrow> (Inl (DbError None None ''No row''), db)
               | Some t \<Rightarrow>
                   (Inr (t\<lparr>expiresAt := Some expiresAt'\<rparr>),
                    db\<lparr>rows := map (\<lambda>r. if secret r = secret'
                                            then r\<lparr>expiresAt := Some expiresAt'\<rparr> else r)
                                 (rows db)\<rparr>))),
      delete_store = (\<lambda>secret' db.
         if offline db then (Inl connection_lost, db)
         else (Inr (), db\<lparr>rows := filter (\<lambda>r. secret r \<noteq> secret') (rows db)\<rparr>))\<rparr>"

text \<open>An empty table that knows the wildcard and one project with one environment.\<close>

definition empty_table :: table where
  "empty_table =
     \<lparr>rows = [], projects = [ALL_scope, ''default''],
      environments = [ALL_scope, ''development''], now = 1000, offline = False\<rparr>"



text \<open>The service right after construction on a store state: no line logged, an empty cache.\<close>

definition new_service :: "'s \<Rightarrow> 's ApiTokenService" where
  "new_service s = \<lparr>store = s, logger = [], activeTokens = []\<rparr>"

text \<open>Inputs for the runs: a draw of the random source and a descriptor for a create.\<close>

definition example_crypto :: "nat \<Rightarrow> 8 word" where
  "example_crypto i = of_nat (9 * i + 7)"

definition descriptor :: "ApiTokenType \<Rightarrow> string \<Rightarrow> string \<Rightarrow> string \<Rightarrow> IApiTokenCreate" where
  "descriptor type' username' project' environment' =
     \<lparr>secret = [], username = username', type = type', project = Some project',
      environment = Some environment', expiresAt = None, createdAt = None\<rparr>"

section \<open>The scope validator\<close>

text \<open>
  C1 (as amended). The validator is a function of its three inputs and nothing else. It
  returns without an error exactly when none of the three rules is violated. An ADMIN
  type with a project other than ALL is rejected with a message naming "single project";
  that message names the project rule only, also when the environment is not ALL either.
  An ADMIN type with the project ALL and an environment other than ALL is rejected with a
  message naming "single environment"; a CLIENT type with the environment ALL is rejected
  with a message naming "all environments". Every rejection is a \<open>BadDataError\<close>.
\<close>

theorem validateNewApiToken_rules:
  "(validateNewApiToken t p e = Inr () \<longleftrightarrow>
      \<not> (t = ApiTokenType_ADMIN \<and> p \<noteq> Some ALL_scope) \<and>
      \<not> (t = ApiTokenType_ADMIN \<and> e \<noteq> Some ALL_scope) \<and>
      \<not> (t = ApiTokenType_CLIENT \<and> e = Some ALL_scope)) \<and>
   (\<exists>m. validateNewApiToken t p e = Inl (BadDataError m) \<or> validateNewApiToken t p e = Inr ()) \<and>
   (t = ApiTokenType_ADMIN \<and> p \<noteq> Some ALL_scope \<longrightarrow>
      (\<exists>m. validateNewApiToken t p e = Inl (BadDataError m) \<and> sublist ''single project'' m \<and>
           \<not> sublist ''single environment'' m)) \<and>
   (t = ApiTokenType_ADMIN \<and> p = Some ALL_scope \<and> e \<noteq> Some ALL_scope \<longrightarrow>
      (\<exists>m. validateNewApiToken t p e = Inl (BadDataError m) \<and>
           sublist ''single environment'' m)) \<and>
   (t = ApiTokenType_CLIENT \<and> e = Some ALL_scope \<longrightarrow>
      (\<exists>m. validateNewApiToken t p e = Inl (BadDataError m) \<and>
           sublist ''all environments'' m))"
  by (simp add: validateNewApiToken_def sublist_Cons_right)

text \<open>
  The theorem at an ADMIN token for all projects and the environment development: the
  message names the environment rule.
\<close>

theorem validateNewApiToken_rules_witness:
  "\<exists>m. validateNewApiToken ApiTokenType_ADMIN (Some ALL_scope) (Some ''development'')
          = Inl (BadDataError m) \<and> sublist ''single environment'' m"
  using validateNewApiToken_rules
    [of ApiTokenType_ADMIN "Some ALL_scope" "Some ''development''"]
  by (simp add: ALL_scope_def)

text \<open>
  As the claim is written, an ADMIN type with an environment other than ALL is rejected
  with a message naming "single environment". For an ADMIN token scoped to the project
  myproj and the environment development both admin rules are violated; the project rule
  is checked first, and the message does not name the environment.
\<close>

theorem validateNewApiToken_environment_counterexample:
  "Some ''development'' \<noteq> Some ALL_scope \<and>
   (\<exists>m. validateNewApiToken ApiTokenType_ADMIN (Some ''myproj'') (Some ''development'')
           = Inl (BadDataError m) \<and> \<not> sublist ''single environment'' m)"
  by (simp add: validateNewApiToken_def ALL_scope_def sublist_Cons_right)

section \<open>A created token is usable at once\<close>




lemma fetchActiveTokens_halves:
  "fetchActiveTokens st svc = fetchActiveTokens_resume (getAllActiveTokens st svc) svc"
  by (simp add: fetchActiveTokens_def fetchActiveTokens_resume_def)









section \<open>The bootstrap seeder\<close>




lemma initApiTokens_newToken_fixed:
  "IApiToken.type (initApiTokens_newToken d) = ApiTokenType_ADMIN"
  "IApiToken.username (initApiTokens_newToken d) = ''admin''"
  by (simp_all add: initApiTokens_newToken_def Let_def)

lemma validateNewApiToken_admin:
  "validateNewApiToken ApiTokenType_ADMIN p e = Inr () \<longleftrightarrow> p = Some ALL_scope \<and> e = Some ALL_scope"
  by (simp add: validateNewApiToken_def)

lemma insertNewApiToken_recording:
  "snd (store (snd (insertNewApiToken (recording st) t svc))) = snd (store svc) @ [t]"
  by (simp add: insertNewApiToken_def recording_def split: prod.splits sum.splits)

lemma initApiTokens_loop_recording:
  "\<exists>new. snd (store (snd (initApiTokens_loop (recording st) tokens svc))) = snd (store svc) @ new \<and>
     (\<forall>t\<in>set new. t \<in> set (map initApiTokens_newToken tokens) \<and>
        IApiToken.project t = Some ALL_scope \<and> IApiToken.environment t = Some ALL_scope)"
proof (induction tokens arbitrary: svc)
  case Nil
  then show ?case by simp
next
  case (Cons d ds)
  let ?t = "initApiTokens_newToken d"
  show ?case
  proof (cases "validateNewApiToken (IApiToken.type ?t) (IApiToken.project ?t) (IApiToken.environment ?t)")
    case (Inl e)
    then show ?thesis by (simp add: Let_def)
  next
    case (Inr u)
    then have ok: "IApiToken.project ?t = Some ALL_scope \<and> IApiToken.environment ?t = Some ALL_scope"
      by (simp add: initApiTokens_newToken_fixed validateNewApiToken_admin)
    obtain r svc1 where ins: "insertNewApiToken (recording st) ?t svc = (r, svc1)"
      by (cases "insertNewApiToken (recording st) ?t svc")
    have asked1: "snd (store svc1) = snd (store svc) @ [?t]"
      using insertNewApiToken_recording [of st ?t svc] ins by simp
    show ?thesis
    proof (cases r)
      case (Inl e)
      with Inr ins asked1 ok show ?thesis by (simp add: Let_def)
    next
      case r: (Inr tok)
      from Cons.IH [of svc1] obtain new where
        new: "snd (store (snd (initApiTokens_loop (recording st) ds svc1))) = snd (store svc1) @ new"
          "\<forall>t\<in>set new. t \<in> set (map initApiTokens_newToken ds) \<and>
              IApiToken.project t = Some ALL_scope \<and> IApiToken.environment t = Some ALL_scope"
        by blast
      have "snd (store (snd (initApiTokens_loop (recording st) (d # ds) svc)))
              = snd (store svc) @ (?t # new)"
        using Inr ins r new(1) asked1 by (simp add: Let_def)
      moreover have "\<forall>t\<in>set (?t # new). t \<in> set (map initApiTokens_newToken (d # ds)) \<and>
              IApiToken.project t = Some ALL_scope \<and> IApiToken.environment t = Some ALL_scope"
        using new(2) ok by auto
      ultimately show ?thesis by blast
    qed
  qed
qed

lemma initApiTokens_of_loop:
  "snd (store (snd (initApiTokens st tokens svc))) =
     (case count st (store svc) of
        Inl e \<Rightarrow> snd (store svc)
      | Inr n \<Rightarrow> if n \<noteq> 0 then snd (store svc)
                 else snd (store (snd (initApiTokens_loop st tokens svc))))"
  by (simp add: initApiTokens_def split: sum.splits prod.splits)

lemma initApiTokens_recording:
  "\<exists>new. snd (store (snd (initApiTokens (recording st) tokens svc))) = snd (store svc) @ new \<and>
     (\<forall>t\<in>set new. t \<in> set (map initApiTokens_newToken tokens) \<and>
        IApiToken.project t = Some ALL_scope \<and> IApiToken.environment t = Some ALL_scope)"
proof (cases "count (recording st) (store svc)")
  case (Inl e)
  then show ?thesis by (simp add: initApiTokens_of_loop)
next
  case (Inr n)
  show ?thesis
  proof (cases "n = 0")
    case True
    with Inr initApiTokens_loop_recording [of st tokens svc] show ?thesis
      by (simp add: initApiTokens_of_loop)
  next
    case False
    with Inr show ?thesis by (simp add: initApiTokens_of_loop)
  qed
qed
































lemma count_recording: "count (recording st) (s, asked) = count st s"
  by (simp add: recording_def)

text \<open>
  C6. When the store's count is not zero, the seeder returns at once and leaves the whole
  state as it was, whatever the store and whatever the descriptors: the store's state,
  the cache and the log are the same, so no validation error was logged. A second run in
  sequence starts from the same state and leaves it again. On the store that records the
  inserts it is asked for, the list of these inserts is the one before the run: the
  seeder asked for none.
\<close>

theorem initApiTokens_skips_nonempty_store:
  assumes "count st (store svc) = Inr n" and "n \<noteq> 0"
  shows "initApiTokens st tokens svc = (Inr (), svc) \<and>
         initApiTokens st tokens (snd (initApiTokens st tokens svc)) = (Inr (), svc) \<and>
         snd (store (snd (initApiTokens (recording st) tokens
            \<lparr>store = (store svc, asked), logger = logger svc,
             activeTokens = activeTokens svc\<rparr>))) = asked"
  using assms by (simp add: initApiTokens_def count_recording)

text \<open>
  Two runs in sequence on a table that holds one token, with a valid and an invalid
  descriptor: the state after the second run is the state before the first, and no
  insert is recorded.
\<close>

lemma run_count_one:
  "count table_store
     (store (new_service (empty_table\<lparr>rows := [initApiTokens_newToken ''*:*:5f2a'']\<rparr>)))
   = Inr 1"
  by code_simp

theorem initApiTokens_skips_nonempty_store_witness:
  "initApiTokens table_store [''*:*:77'', ''default:development:abc'']
     (snd (initApiTokens table_store [''*:*:77'', ''default:development:abc'']
        (new_service (empty_table\<lparr>rows := [initApiTokens_newToken ''*:*:5f2a'']\<rparr>))))
     = (Inr (), new_service (empty_table\<lparr>rows := [initApiTokens_newToken ''*:*:5f2a'']\<rparr>)) \<and>
   snd (store (snd (initApiTokens (recording table_store) [''*:*:77'', ''default:development:abc'']
     (new_service (empty_table\<lparr>rows := [initApiTokens_newToken ''*:*:5f2a'']\<rparr>, []))))) = []"
  using initApiTokens_skips_nonempty_store
    [OF run_count_one, of "[''*:*:77'', ''default:development:abc'']" "[]"]
  by (simp add: new_service_def)

section \<open>Errors of the store's insert\<close>

lemma sublist_Project: "sublist p (''Project='' @ p @ rest)"
  by (rule sublist_appendI)

lemma sublist_Environment: "sublist p (''Environment='' @ p @ rest)"
  by (rule sublist_appendI)

lemma insertNewApiToken_Inl:
  assumes "fst (insert_store st t (store svc)) = Inl err"
  shows "fst (insertNewApiToken st t svc) =
     Inl (if code err = Some FOREIGN_KEY_VIOLATION then
            BadDataError
              (if constraint err = Some ''api_tokens_project_fkey'' then
                 ''Project='' @ js_to_string (IApiToken.project t) @ '' does not exist''
               else if constraint err = Some ''api_tokens_environment_fkey'' then
                 ''Environment='' @ js_to_string (IApiToken.environment t) @ '' does not exist''
               else message err)
          else err)"
    and "activeTokens (snd (insertNewApiToken st t svc)) = activeTokens svc"
    and "logger (snd (insertNewApiToken st t svc)) = logger svc"
  using assms by (auto simp: insertNewApiToken_def split: prod.splits sum.splits)

lemma createApiToken_valid:
  assumes "validateNewApiToken (IApiToken.type newToken) (IApiToken.project newToken)
             (IApiToken.environment newToken) = Inr ()"
  shows "createApiToken st crypto newToken svc =
     insertNewApiToken st
       (newToken\<lparr>secret := generateSecretKey crypto (IApiToken.project newToken)
                                 (IApiToken.environment newToken)\<rparr>) svc"
  using assms by (simp add: createApiToken_def)

text \<open>
  C4. For a create whose descriptor passes validation and whose store insert fails with
  the error \<open>err\<close>: if \<open>err\<close> has the foreign-key code and the project constraint,
  the create fails with a \<open>BadDataError\<close> whose message contains the project of the
  descriptor; if it has the foreign-key code and the environment constraint, the message
  contains the environment of the descriptor; if it does not have the foreign-key code,
  the create fails with \<open>err\<close> itself.
\<close>

theorem createApiToken_translates_store_errors:
  assumes valid: "validateNewApiToken (IApiToken.type newToken) (IApiToken.project newToken)
             (IApiToken.environment newToken) = Inr ()"
    and fails: "fst (insert_store st
             (newToken\<lparr>secret := generateSecretKey crypto (IApiToken.project newToken)
                                    (IApiToken.environment newToken)\<rparr>) (store svc)) = Inl err"
  shows "(code err = Some FOREIGN_KEY_VIOLATION \<and>
          constraint err = Some ''api_tokens_project_fkey'' \<longrightarrow>
            (\<exists>m. fst (createApiToken st crypto newToken svc) = Inl (BadDataError m) \<and>
                 sublist (js_to_string (IApiToken.project newToken)) m)) \<and>
         (code err = Some FOREIGN_KEY_VIOLATION \<and>
          constraint err = Some ''api_tokens_environment_fkey'' \<longrightarrow>
            (\<exists>m. fst (createApiToken st crypto newToken svc) = Inl (BadDataError m) \<and>
                 sublist (js_to_string (IApiToken.environment newToken)) m)) \<and>
         (code err \<noteq> Some FOREIGN_KEY_VIOLATION \<longrightarrow>
            fst (createApiToken st crypto newToken svc) = Inl err)"
proof -
  let ?t = "newToken\<lparr>secret := generateSecretKey crypto (IApiToken.project newToken)
                                    (IApiToken.environment newToken)\<rparr>"
  have create: "createApiToken st crypto newToken svc = insertNewApiToken st ?t svc"
    using createApiToken_valid [OF valid] .
  note thrown = insertNewApiToken_Inl(1) [OF fails]
  show ?thesis
    unfolding create thrown
    using sublist_Project sublist_Environment by auto
qed

text \<open>A create on the table for the project payments, which the table does not know.\<close>

lemma run_insert_unknown_project:
  "fst (insert_store table_store
     ((descriptor ApiTokenType_CLIENT ''ci'' ''payments'' ''development'')
        \<lparr>secret := generateSecretKey example_crypto (Some ''payments'') (Some ''development'')\<rparr>)
     (store (new_service empty_table)))
   = Inl (DbError (Some FOREIGN_KEY_VIOLATION) (Some ''api_tokens_project_fkey'')
           ''violates foreign key constraint api_tokens_project_fkey'')"
  by code_simp

theorem createApiToken_translates_store_errors_witness:
  "\<exists>m. fst (createApiToken table_store example_crypto
            (descriptor ApiTokenType_CLIENT ''ci'' ''payments'' ''development'')
            (new_service empty_table)) = Inl (BadDataError m) \<and>
       sublist ''payments'' m"
  using createApiToken_translates_store_errors [of "descriptor ApiTokenType_CLIENT ''ci'' ''payments'' ''development''"
      table_store example_crypto "new_service empty_table"
      "DbError (Some FOREIGN_KEY_VIOLATION) (Some ''api_tokens_project_fkey'')
           ''violates foreign key constraint api_tokens_project_fkey''"]
    run_insert_unknown_project
  by (simp add: descriptor_def validateNewApiToken_def ALL_scope_def)

text \<open>
  C9. When the store's insert fails for a token, \<open>insertNewApiToken\<close> fails, whether
  the error is translated or not, and the cache is the one before the call: nothing is
  appended, and every lookup answers as before. The same holds for the create that hands
  this token to the insert.
\<close>

theorem failed_insert_keeps_cache:
  assumes "fst (insert_store st t (store svc)) = Inl err"
  shows "(\<exists>err'. fst (insertNewApiToken st t svc) = Inl err') \<and>
         activeTokens (snd (insertNewApiToken st t svc)) = activeTokens svc \<and>
         getUserForToken (snd (insertNewApiToken st t svc)) x = getUserForToken svc x \<and>
         (t = newToken\<lparr>secret := generateSecretKey crypto (IApiToken.project newToken)
                                    (IApiToken.environment newToken)\<rparr> \<longrightarrow>
            (\<exists>err'. fst (createApiToken st crypto newToken svc) = Inl err') \<and>
            activeTokens (snd (createApiToken st crypto newToken svc)) = activeTokens svc \<and>
            getUserForToken (snd (createApiToken st crypto newToken svc)) x
              = getUserForToken svc x)"
proof -
  note ins = insertNewApiToken_Inl [OF assms]
  have 1: "\<exists>err'. fst (insertNewApiToken st t svc) = Inl err'"
    using ins(1) by blast
  have 2: "getUserForToken (snd (insertNewApiToken st t svc)) x = getUserForToken svc x"
    by (simp add: getUserForToken_def ins(2))
  have 3: "(\<exists>err'. fst (createApiToken st crypto newToken svc) = Inl err') \<and>
            activeTokens (snd (createApiToken st crypto newToken svc)) = activeTokens svc \<and>
            getUserForToken (snd (createApiToken st crypto newToken svc)) x
              = getUserForToken svc x"
    if t: "t = newToken\<lparr>secret := generateSecretKey crypto (IApiToken.project newToken)
                                    (IApiToken.environment newToken)\<rparr>"
  proof (cases "validateNewApiToken (IApiToken.type newToken) (IApiToken.project newToken)
             (IApiToken.environment newToken)")
    case (Inl e)
    then show ?thesis by (simp add: createApiToken_def)
  next
    case (Inr u)
    then have "createApiToken st crypto newToken svc = insertNewApiToken st t svc"
      unfolding t by (intro createApiToken_valid) simp
    with 1 2 ins(2) show ?thesis by simp
  qed
  from 1 2 3 ins(2) show ?thesis by blast
qed

text \<open>
  A create while the table is offline: it fails with the connection error, the cache
  still holds its one token, and the secret that was generated is not found.
\<close>

lemma run_insert_offline:
  "fst (insert_store table_store
     ((descriptor ApiTokenType_CLIENT ''ci'' ''default'' ''development'')
        \<lparr>secret := generateSecretKey example_crypto (Some ''default'') (Some ''development'')\<rparr>)
     (store \<lparr>store = empty_table\<lparr>offline := True\<rparr>, logger = [],
             activeTokens = [initApiTokens_newToken ''*:*:5f2a'']\<rparr>))
   = Inl connection_lost"
  by code_simp

theorem failed_insert_keeps_cache_witness:
  "fst (createApiToken table_store example_crypto
      (descriptor ApiTokenType_CLIENT ''ci'' ''default'' ''development'')
      \<lparr>store = empty_table\<lparr>offline := True\<rparr>, logger = [],
       activeTokens = [initApiTokens_newToken ''*:*:5f2a'']\<rparr>) = Inl connection_lost \<and>
   activeTokens (snd (createApiToken table_store example_crypto
      (descriptor ApiTokenType_CLIENT ''ci'' ''default'' ''development'')
      \<lparr>store = empty_table\<lparr>offline := True\<rparr>, logger = [],
       activeTokens = [initApiTokens_newToken ''*:*:5f2a'']\<rparr>))
     = [initApiTokens_newToken ''*:*:5f2a''] \<and>
   getUserForToken (snd (createApiToken table_store example_crypto
      (descriptor ApiTokenType_CLIENT ''ci'' ''default'' ''development'')
      \<lparr>store = empty_table\<lparr>offline := True\<rparr>, logger = [],
       activeTokens = [initApiTokens_newToken ''*:*:5f2a'']\<rparr>))
     ''default:development.071019222b343d464f58616a737c858e97a0a9b2bbc4cdd6dfe8f1fa'' = None"
proof -
  let ?svc = "\<lparr>store = empty_table\<lparr>offline := True\<rparr>, logger = [],
       activeTokens = [initApiTokens_newToken ''*:*:5f2a'']\<rparr>"
  let ?d = "descriptor ApiTokenType_CLIENT ''ci'' ''default'' ''development''"
  have d: "IApiToken.project ?d = Some ''default''" "IApiToken.environment ?d = Some ''development''"
    by (simp_all add: descriptor_def)
  have before: "getUserForToken ?svc
      ''default:development.071019222b343d464f58616a737c858e97a0a9b2bbc4cdd6dfe8f1fa'' = None"
    by code_simp
  have fails: "fst (createApiToken table_store example_crypto ?d ?svc) = Inl connection_lost"
    by code_simp
  from failed_insert_keeps_cache [OF run_insert_offline, where newToken = ?d and crypto = example_crypto
      and x = "''default:development.071019222b343d464f58616a737c858e97a0a9b2bbc4cdd6dfe8f1fa''"]
  have "activeTokens (snd (createApiToken table_store example_crypto ?d ?svc))
          = activeTokens ?svc \<and>
        getUserForToken (snd (createApiToken table_store example_crypto ?d ?svc))
          ''default:development.071019222b343d464f58616a737c858e97a0a9b2bbc4cdd6dfe8f1fa''
          = getUserForToken ?svc
              ''default:development.071019222b343d464f58616a737c858e97a0a9b2bbc4cdd6dfe8f1fa''"
    unfolding d by blast
  with before fails show ?thesis by simp
qed

section \<open>The refresh of the cache\<close>

text \<open>
  C5. \<open>fetchActiveTokens\<close> never fails: its result is the normal return, whatever the
  store answers, so no error reaches the caller or the timer. When the fetch of the
  active tokens fails, the state (the cache with it) is left as it was; when it succeeds,
  the cache is the fetched list and nothing else changes.
\<close>

theorem fetchActiveTokens_never_throws:
  "fst (fetchActiveTokens st svc) = Inr () \<and>
   (\<forall>e. getAllActive st (store svc) = Inl e \<longrightarrow> snd (fetchActiveTokens st svc) = svc) \<and>
   (\<forall>tokens. getAllActive st (store svc) = Inr tokens \<longrightarrow>
      snd (fetchActiveTokens st svc) = svc\<lparr>activeTokens := tokens\<rparr>)"
  by (simp add: fetchActiveTokens_def getAllActiveTokens_def split: sum.splits)

text \<open>A refresh while the table is offline keeps the token that was cached.\<close>

lemma run_offline:
  "getAllActive table_store
     (store \<lparr>store = empty_table\<lparr>offline := True\<rparr>, logger = [],
             activeTokens = [initApiTokens_newToken ''*:*:5f2a'']\<rparr>) = Inl connection_lost"
  by code_simp

theorem fetchActiveTokens_never_throws_witness:
  "fetchActiveTokens table_store
     \<lparr>store = empty_table\<lparr>offline := True\<rparr>, logger = [],
      activeTokens = [initApiTokens_newToken ''*:*:5f2a'']\<rparr>
   = (Inr (), \<lparr>store = empty_table\<lparr>offline := True\<rparr>, logger = [],
      activeTokens = [initApiTokens_newToken ''*:*:5f2a'']\<rparr>)"
  using fetchActiveTokens_never_throws [of table_store "\<lparr>store = empty_table\<lparr>offline := True\<rparr>, logger = [],
      activeTokens = [initApiTokens_newToken ''*:*:5f2a'']\<rparr>"] run_offline
  by (simp add: prod_eq_iff)

section \<open>Expiry updates and deletes\<close>

text \<open>
  C7. \<open>updateExpiry\<close> returns what the store's \<open>setExpiry\<close> returns and \<open>delete\<close>
  what the store's \<open>delete\<close> returns; each leaves the store's state as the store left
  it and the cache as it was, so every lookup answers after the call as it did before: a
  token that was found before its delete is still found after it.
\<close>

theorem updateExpiry_delete_keep_cache:
  "updateExpiry st secret' expiresAt' svc =
     (fst (setExpiry st secret' expiresAt' (store svc)),
      svc\<lparr>store := snd (setExpiry st secret' expiresAt' (store svc))\<rparr>) \<and>
   activeTokens (snd (updateExpiry st secret' expiresAt' svc)) = activeTokens svc \<and>
   getUserForToken (snd (updateExpiry st secret' expiresAt' svc)) x = getUserForToken svc x \<and>
   delete st secret' svc =
     (fst (delete_store st secret' (store svc)),
      svc\<lparr>store := snd (delete_store st secret' (store svc))\<rparr>) \<and>
   activeTokens (snd (delete st secret' svc)) = activeTokens svc \<and>
   getUserForToken (snd (delete st secret' svc)) x = getUserForToken svc x"
  by (simp add: updateExpiry_def delete_def getUserForToken_def split: prod.splits)

text \<open>
  A token is created on the table and deleted: the store no longer lists it, and the
  lookup by its secret still answers with its Principal.
\<close>

lemma run_delete:
  "delete table_store ''default:development.071019222b343d464f58616a737c858e97a0a9b2bbc4cdd6dfe8f1fa''
     (snd (createApiToken table_store example_crypto
        (descriptor ApiTokenType_CLIENT ''ci'' ''default'' ''development'')
        (new_service empty_table)))
   = (Inr (), \<lparr>store = empty_table, logger = [],
       activeTokens =
         [\<lparr>secret = ''default:development.071019222b343d464f58616a737c858e97a0a9b2bbc4cdd6dfe8f1fa'',
           username = ''ci'', type = ApiTokenType_CLIENT, project = Some ''default'',
           environment = Some ''development'', expiresAt = None, createdAt = Some 1000\<rparr>]\<rparr>)"
  by code_simp

lemma run_lookup_before_delete:
  "getUserForToken
     (snd (createApiToken table_store example_crypto
        (descriptor ApiTokenType_CLIENT ''ci'' ''default'' ''development'')
        (new_service empty_table)))
     ''default:development.071019222b343d464f58616a737c858e97a0a9b2bbc4cdd6dfe8f1fa''
   = Some \<lparr>ApiUser.username = ''ci'', permissions = [CLIENT], project = Some ''default'',
            environment = Some ''development'', type = ApiTokenType_CLIENT\<rparr>"
  by code_simp

theorem updateExpiry_delete_keep_cache_witness:
  "getAllTokens table_store
     (snd (delete table_store
        ''default:development.071019222b343d464f58616a737c858e97a0a9b2bbc4cdd6dfe8f1fa''
        (snd (createApiToken table_store example_crypto
           (descriptor ApiTokenType_CLIENT ''ci'' ''default'' ''development'')
           (new_service empty_table))))) = Inr [] \<and>
   getUserForToken
     (snd (delete table_store
        ''default:development.071019222b343d464f58616a737c858e97a0a9b2bbc4cdd6dfe8f1fa''
        (snd (createApiToken table_store example_crypto
           (descriptor ApiTokenType_CLIENT ''ci'' ''default'' ''development'')
           (new_service empty_table)))))
     ''default:development.071019222b343d464f58616a737c858e97a0a9b2bbc4cdd6dfe8f1fa''
   = Some \<lparr>ApiUser.username = ''ci'', permissions = [CLIENT], project = Some ''default'',
            environment = Some ''development'', type = ApiTokenType_CLIENT\<rparr>"
proof -
  let ?secret = "''default:development.071019222b343d464f58616a737c858e97a0a9b2bbc4cdd6dfe8f1fa''"
  let ?svc = "snd (createApiToken table_store example_crypto
           (descriptor ApiTokenType_CLIENT ''ci'' ''default'' ''development'')
           (new_service empty_table))"
  from updateExpiry_delete_keep_cache [of table_store ?secret 0 ?svc ?secret]
  have "getUserForToken (snd (delete table_store ?secret ?svc)) ?secret
          = getUserForToken ?svc ?secret"
    by (elim conjE)
  then have "getUserForToken (snd (delete table_store ?secret ?svc)) ?secret
          = Some \<lparr>ApiUser.username = ''ci'', permissions = [CLIENT], project = Some ''default'',
            environment = Some ''development'', type = ApiTokenType_CLIENT\<rparr>"
    by (simp only: run_lookup_before_delete)
  moreover have "getAllTokens table_store (snd (delete table_store ?secret ?svc)) = Inr []"
    unfolding run_delete by code_simp
  ultimately show ?thesis by (rule conjI [rotated])
qed

section \<open>The secret generator\<close>

lemma length_toString_hex: "length (toString_hex bytes) = 2 * length bytes"
  by (induction bytes) (simp_all add: toString_hex_def)

lemma length_randomBytes: "length (randomBytes crypto n) = n"
  by (simp add: randomBytes_def)

lemma hex_digit_in: "d < 16 \<Longrightarrow> hex_digit d \<in> set ''0123456789abcdef''"
  unfolding hex_digit_def by (rule nth_mem) simp

lemma unat_byte_div: "unat (b :: 8 word) div 16 < 16"
proof -
  have "unat b < 2 ^ 8" using unsigned_less [of b] by simp
  then show ?thesis by simp
qed

lemma set_toString_hex: "set (toString_hex bytes) \<subseteq> set ''0123456789abcdef''"
proof (induction bytes)
  case Nil
  then show ?case by (simp add: toString_hex_def)
next
  case (Cons b bytes)
  have "hex_digit (unat b div 16) \<in> set ''0123456789abcdef''"
    by (rule hex_digit_in) (rule unat_byte_div)
  moreover have "hex_digit (unat b mod 16) \<in> set ''0123456789abcdef''"
    by (rule hex_digit_in) simp
  ultimately show ?case using Cons.IH by (simp add: toString_hex_def)
qed

lemma hex_digit_inj: "a < 16 \<Longrightarrow> b < 16 \<Longrightarrow> hex_digit a = hex_digit b \<Longrightarrow> a = b"
proof -
  assume a: "a < 16" and b: "b < 16" and e: "hex_digit a = hex_digit b"
  have d: "distinct ''0123456789abcdef''" by simp
  have la: "a < length ''0123456789abcdef''" using a by simp
  have lb: "b < length ''0123456789abcdef''" using b by simp
  from e show "a = b" unfolding hex_digit_def
    using nth_eq_iff_index_eq [OF d la lb] by blast
qed

lemma toString_hex_inj: "toString_hex xs = toString_hex ys \<Longrightarrow> xs = ys"
proof (induction xs arbitrary: ys)
  case Nil
  then show ?case by (cases ys) (simp_all add: toString_hex_def)
next
  case (Cons x xs)
  show ?case
  proof (cases ys)
    case Nil
    with Cons.prems show ?thesis by (simp add: toString_hex_def)
  next
    case (Cons y ys')
    from Cons.prems Cons have hi: "hex_digit (unat x div 16) = hex_digit (unat y div 16)"
      and lo: "hex_digit (unat x mod 16) = hex_digit (unat y mod 16)"
      and rest: "toString_hex xs = toString_hex ys'"
      by (simp_all add: toString_hex_def)
    have "unat x div 16 = unat y div 16"
      using hex_digit_inj [OF unat_byte_div unat_byte_div hi] .
    moreover have "unat x mod 16 = unat y mod 16"
      by (rule hex_digit_inj [OF _ _ lo]) simp_all
    ultimately have "unat x = unat y"
      by (metis div_mult_mod_eq)
    then have "x = y" by (simp add: word_unat_eq_iff)
    with Cons.IH [OF rest] Cons show ?thesis by simp
  qed
qed

lemma randomBytes_eq_iff:
  "randomBytes c1 n = randomBytes c2 n \<longleftrightarrow> (\<forall>i<n. c1 i = c2 i)"
  by (auto simp: randomBytes_def)

lemma generateSecretKey_eq_iff:
  "generateSecretKey c1 p e = generateSecretKey c2 p e \<longleftrightarrow> (\<forall>i<28. c1 i = c2 i)"
proof -
  have "generateSecretKey c1 p e = generateSecretKey c2 p e \<longleftrightarrow>
        toString_hex (randomBytes c1 28) = toString_hex (randomBytes c2 28)"
    by (simp add: generateSecretKey_def)
  also have "\<dots> \<longleftrightarrow> randomBytes c1 28 = randomBytes c2 28"
    using toString_hex_inj by auto
  also have "\<dots> \<longleftrightarrow> (\<forall>i<28. c1 i = c2 i)"
    by (rule randomBytes_eq_iff)
  finally show ?thesis .
qed

lemma randomBytes_nth: "i < n \<Longrightarrow> randomBytes crypto n ! i = crypto i"
  by (simp add: randomBytes_def)

text \<open>
  C8. A generated secret is the project, a colon, the environment, a dot and a suffix.
  The suffix is drawn from the random source: it is the first 28 bytes of the source (224
  bits), each written as two hexadecimal digits, 56 characters that are all hexadecimal
  digits. Nothing of the draw is lost: two draws give the same suffix, and the same
  secret for a project and an environment, exactly when they agree on these 28 bytes.
  (That the source is cryptographically secure is a property of \<open>crypto.randomBytes\<close>,
  which the model takes as the parameter \<open>crypto\<close>.)
\<close>

theorem generateSecretKey_format:
  "generateSecretKey crypto p e =
     js_to_string p @ '':'' @ js_to_string e @ ''.'' @ toString_hex (randomBytes crypto 28) \<and>
   prefix (js_to_string p @ '':'' @ js_to_string e @ ''.'') (generateSecretKey crypto p e) \<and>
   length (randomBytes crypto 28) = 28 \<and>
   length (toString_hex (randomBytes crypto 28)) = 56 \<and>
   set (toString_hex (randomBytes crypto 28)) \<subseteq> set ''0123456789abcdef'' \<and>
   (toString_hex (randomBytes crypto 28) = toString_hex (randomBytes crypto' 28)) =
     (randomBytes crypto 28 = randomBytes crypto' 28) \<and>
   (\<forall>i<28. randomBytes crypto 28 ! i = crypto i) \<and>
   (generateSecretKey crypto p e = generateSecretKey crypto' p e) =
     (\<forall>i<28. crypto i = crypto' i)"
proof -
  have "(toString_hex (randomBytes crypto 28) = toString_hex (randomBytes crypto' 28)) =
     (randomBytes crypto 28 = randomBytes crypto' 28)"
    using toString_hex_inj by auto
  moreover note set_toString_hex [of "randomBytes crypto 28"]
  moreover have "\<forall>i<28. randomBytes crypto 28 ! i = crypto i"
    by (simp add: randomBytes_nth)
  moreover note generateSecretKey_eq_iff [of crypto p e crypto']
  ultimately show ?thesis
    by (simp add: generateSecretKey_def length_toString_hex length_randomBytes del: set_simps)
qed

text \<open>
  The secret for the project default and the environment development on one draw; a draw
  that differs in its last byte gives another secret, one that differs after 28 bytes the
  same.
\<close>

lemma run_generate:
  "toString_hex (randomBytes example_crypto 28)
     = ''071019222b343d464f58616a737c858e97a0a9b2bbc4cdd6dfe8f1fa''"
  by code_simp

theorem generateSecretKey_format_witness:
  "generateSecretKey example_crypto (Some ''default'') (Some ''development'')
     = ''default:development.071019222b343d464f58616a737c858e97a0a9b2bbc4cdd6dfe8f1fa'' \<and>
   length ''071019222b343d464f58616a737c858e97a0a9b2bbc4cdd6dfe8f1fa'' = 56 \<and>
   generateSecretKey example_crypto (Some ''default'') (Some ''development'')
     \<noteq> generateSecretKey (example_crypto (27 := 0)) (Some ''default'') (Some ''development'') \<and>
   generateSecretKey example_crypto (Some ''default'') (Some ''development'')
     = generateSecretKey (example_crypto (28 := 0)) (Some ''default'') (Some ''development'')"
proof -
  let ?p = "Some ''default''" and ?e = "Some ''development''"
  have differ: "\<not> (\<forall>i<28. example_crypto i = (example_crypto (27 := 0)) i)"
  proof
    assume "\<forall>i<28. example_crypto i = (example_crypto (27 := 0)) i"
    then have "27 < (28::nat) \<longrightarrow> example_crypto 27 = (example_crypto (27 := 0)) 27"
      by (rule spec)
    then show False by (simp add: example_crypto_def)
  qed
  have agree: "\<forall>i<28. example_crypto i = (example_crypto (28 := 0)) i"
    by simp
  from generateSecretKey_format [of example_crypto ?p ?e "example_crypto (27 := 0)"]
  have "(generateSecretKey example_crypto ?p ?e = generateSecretKey (example_crypto (27 := 0)) ?p ?e)
          = (\<forall>i<28. example_crypto i = (example_crypto (27 := 0)) i)"
    by (elim conjE)
  with differ have 1: "generateSecretKey example_crypto ?p ?e
          \<noteq> generateSecretKey (example_crypto (27 := 0)) ?p ?e"
    by (simp only: not_False_eq_True)
  from generateSecretKey_format [of example_crypto ?p ?e "example_crypto (28 := 0)"]
  have "(generateSecretKey example_crypto ?p ?e = generateSecretKey (example_crypto (28 := 0)) ?p ?e)
          = (\<forall>i<28. example_crypto i = (example_crypto (28 := 0)) i)"
    by (elim conjE)
  with agree have 2: "generateSecretKey example_crypto ?p ?e
          = generateSecretKey (example_crypto (28 := 0)) ?p ?e"
    by (simp only:)
  from generateSecretKey_format [of example_crypto ?p ?e example_crypto]
  have "generateSecretKey example_crypto ?p ?e =
     js_to_string ?p @ '':'' @ js_to_string ?e @ ''.'' @ toString_hex (randomBytes example_crypto 28)"
    by (elim conjE)
  then have 3: "generateSecretKey example_crypto ?p ?e
     = ''default:development.071019222b343d464f58616a737c858e97a0a9b2bbc4cdd6dfe8f1fa''"
    by (simp add: run_generate)
  have 4: "length ''071019222b343d464f58616a737c858e97a0a9b2bbc4cdd6dfe8f1fa'' = 56"
    by simp
  from 3 4 1 2 show ?thesis by (intro conjI)
qed

section \<open>Token types outside the enum\<close>




end
